theory Spec2Isabelle
  imports Complex_Main
begin

section \<open>JavaScript values used by \<open>src/index.ts\<close>\<close>

text \<open>
  A JavaScript \<open>number\<close> arriving in a JSON response is a finite double; every finite
  double is a rational, so numbers are modelled by their exact value. Strings are lists
  of code units: \<open>length\<close> is \<open>.length\<close> and \<open>take 200\<close> is \<open>.substring(0, 200)\<close>.
\<close>

type_synonym number = rat

definition nl :: string where
  "nl = [CHR 0x0A]"

definition digit_char :: "nat \<Rightarrow> char" where
  "digit_char d = ''0123456789'' ! (d mod 10)"

text \<open>The decimal digits of a non-negative integer, as a template literal prints it.\<close>

fun decimal :: "nat \<Rightarrow> string" where
  "decimal n = (if n \<le> 9 then [digit_char n] else decimal (n div 10) @ [digit_char (n mod 10)])"

declare decimal.simps [simp del]

definition integer_to_string :: "int \<Rightarrow> string" where
  "integer_to_string t = (if t < 0 then ''-'' @ decimal (nat (- t)) else decimal (nat t))"

text \<open>\<open>Array.prototype.join\<close>.\<close>

fun join :: "string \<Rightarrow> string list \<Rightarrow> string" where
  "join sep [] = []"
| "join sep [x] = x"
| "join sep (x # y # ys) = x @ sep @ join sep (y # ys)"

text \<open>\<open>xs.map((r, i) => f(r, i))\<close>.\<close>

definition map_index :: "('a \<Rightarrow> nat \<Rightarrow> 'b) \<Rightarrow> 'a list \<Rightarrow> 'b list" where
  "map_index f xs = map (\<lambda>(i, r). f r i) (enumerate 0 xs)"

text \<open>
  \<open>Number.prototype.toFixed(f)\<close>, following the steps of the ECMAScript definition on
  the exact value \<open>x\<close>: the sign is split off; from \<open>10^21\<close> on the result is that of
  \<open>Number::toString\<close>, which is not modelled and is taken as the parameter
  \<open>numberToString\<close>; below, \<open>n\<close> is the integer nearest to \<open>x * 10^f\<close> (the larger one
  on a tie), its digits are padded with zeros to \<open>f + 1\<close> places and the point is put
  before the last \<open>f\<close> of them. The source only calls it with \<open>f = 2\<close>.
\<close>

definition toFixed :: "(number \<Rightarrow> string) \<Rightarrow> number \<Rightarrow> nat \<Rightarrow> string" where
  "toFixed numberToString x f =
     (let s = (if x < 0 then ''-'' else []);
          a = \<bar>x\<bar>;
          m = (if 10 ^ 21 \<le> a then numberToString a
               else
                 let n = nat \<lfloor>a * 10 ^ f + 1 / 2\<rfloor>;
                     m0 = decimal n
                 in if f \<noteq> 0
                    then let z = (if length m0 \<le> f
                                  then replicate (f + 1 - length m0) (CHR ''0'') @ m0
                                  else m0);
                             k = length z
                         in take (k - f) z @ ''.'' @ drop (k - f) z
                    else m0)
      in s @ m)"

text \<open>
  A required or optional string parameter as the handler sees it: \<open>None\<close> is
  \<open>undefined\<close>. \<open>falsy v\<close> is the test \<open>!v\<close>. The parameter \<open>session_id\<close> of the
  handlers is written \<open>session_id'\<close>, the plain name being the field of the structured output.
\<close>

definition falsy :: "string option \<Rightarrow> bool" where
  "falsy v = (case v of None \<Rightarrow> True | Some s \<Rightarrow> s = [])"

text \<open>
  A default parameter (\<open>max_results = 5\<close>) and the operator \<open>v ?? d\<close>: the value when
  there is one, \<open>d\<close> when it is \<open>undefined\<close> or null.
\<close>

definition or_default :: "'a option \<Rightarrow> 'a \<Rightarrow> 'a" where
  "or_default v d = (case v of None \<Rightarrow> d | Some x \<Rightarrow> x)"

section \<open>Data model\<close>

text \<open>\<open>DocumentSchema\<close> and \<open>SearchResultSchema\<close> (a document plus its score).\<close>

record document =
  id' :: number
  title :: string
  content :: string
  tags :: "string list"

record search_result = document +
  score :: number

text \<open>
  The projection returned by \<open>cite_sources\<close>, with the fields \<open>id\<close>, \<open>title\<close>, \<open>tags\<close>
  and \<open>relevance_score\<close>; the first three are prefixed, their names being taken by the
  fields of a document.
\<close>

record citation =
  cit_id :: number
  cit_title :: string
  cit_tags :: "string list"
  relevance_score :: number

text \<open>
  The part of the Elasticsearch response that the handler reads: \<open>response.hits.hits\<close>,
  each hit with \<open>_source\<close> (a \<open>Document\<close>, as the source's cast asserts) and \<open>_score\<close>
  (possibly null), and \<open>response.hits.total\<close>, which is a number, an object with a
  \<open>value\<close>, or absent.
\<close>

record hit =
  hit_source :: document
  hit_score :: "number option"

datatype hits_total = TotalNumber number | TotalObject "number option" | TotalUndefined

record search_response =
  hits :: "hit list"
  hits_total :: hits_total

text \<open>The request built by \<open>search_docs\<close> for \<open>_client.search\<close>.\<close>

record search_request =
  index :: string
  size :: number
  multi_match_query :: string
  multi_match_fields :: "string list"
  multi_match_fuzziness :: string
  match_phrase_title_query :: string
  match_phrase_title_boost :: number
  highlight_fields :: "string list"

text \<open>The request built by \<open>summarize_results\<close> for \<open>openai.chat.completions.create\<close>.\<close>

record chat_request =
  model :: string
  system_content :: string
  user_content :: string
  max_tokens :: int
  temperature :: number

text \<open>
  A completion is its list of choices; each choice carries \<open>message.content\<close>, a string
  or null.
\<close>

type_synonym completion = "string option list"

text \<open>
  The two external calls. Each either throws (\<open>Inl\<close> of the error's \<open>message\<close>) or
  returns (\<open>Inr\<close>).
\<close>

type_synonym retrieval_oracle = "search_request \<Rightarrow> string + search_response"
type_synonym synthesis_oracle = "chat_request \<Rightarrow> string + completion"

text \<open>
  The state: the module-level \<open>searchContextStore\<close>, and a log of the requests sent to
  each external service (the log is not in the source; it records that a call was made).
\<close>

record world =
  searchContextStore :: "string \<rightharpoonup> search_result list"
  retrieval_calls :: "search_request list"
  synthesis_calls :: "chat_request list"

text \<open>
  What a handler returns: \<open>{content: [{type: "text", text}], isError: true}\<close> or
  \<open>{content: [{type: "text", text}], structuredContent}\<close>.
\<close>

datatype 'a tool_result = ToolError string | ToolOk string 'a

definition isError :: "'a tool_result \<Rightarrow> bool" where
  "isError r = (case r of ToolError _ \<Rightarrow> True | ToolOk _ _ \<Rightarrow> False)"

definition structuredContent :: "'a tool_result \<Rightarrow> 'a option" where
  "structuredContent r = (case r of ToolError _ \<Rightarrow> None | ToolOk _ out \<Rightarrow> Some out)"

record search_output =
  results :: "search_result list"
  total :: number
  session_id :: string

record summarize_output =
  summary :: string
  sources_used :: nat

record cite_output =
  citations :: "citation list"

section \<open>The three tools\<close>

subsection \<open>\<open>search_docs\<close>\<close>

definition result_of_hit :: "hit \<Rightarrow> search_result" where
  "result_of_hit h =
     \<lparr> id' = id' (hit_source h),
       title = title (hit_source h),
       content = content (hit_source h),
       tags = tags (hit_source h),
       score = or_default (hit_score h) 0 \<rparr>"

definition build_search_request :: "string \<Rightarrow> number \<Rightarrow> search_request" where
  "build_search_request query max_results =
     \<lparr> index = ''documents'',
       size = max_results,
       multi_match_query = query,
       multi_match_fields = [''title^2'', ''content'', ''tags''],
       multi_match_fuzziness = ''AUTO'',
       match_phrase_title_query = query,
       match_phrase_title_boost = 2,
       highlight_fields = [''title'', ''content''] \<rparr>"

definition result_line :: "(number \<Rightarrow> string) \<Rightarrow> search_result \<Rightarrow> nat \<Rightarrow> string" where
  "result_line numberToString r i =
     ''['' @ decimal (i + 1) @ ''] '' @ title r @ '' (score: ''
       @ toFixed numberToString (score r) 2 @ '')'' @ nl @ take 200 (content r) @ ''...''"

definition totalHits :: "search_response \<Rightarrow> number" where
  "totalHits response =
     (case hits_total response of
        TotalNumber n \<Rightarrow> n
      | TotalObject v \<Rightarrow> or_default v 0
      | TotalUndefined \<Rightarrow> 0)"

text \<open>\<open>session_id || `session_${Date.now()}`\<close>, with \<open>now\<close> the clock reading.\<close>

definition contextId :: "string option \<Rightarrow> int \<Rightarrow> string" where
  "contextId session_id' now =
     (case session_id' of
        None \<Rightarrow> ''session_'' @ integer_to_string now
      | Some s \<Rightarrow> if s = [] then ''session_'' @ integer_to_string now else s)"

definition search_docs ::
  "(number \<Rightarrow> string) \<Rightarrow> retrieval_oracle \<Rightarrow> int \<Rightarrow>
   string option \<Rightarrow> number option \<Rightarrow> string option \<Rightarrow> world \<Rightarrow>
   search_output tool_result \<times> world" where
  "search_docs numberToString client now query max_results session_id' w =
     (case query of
        None \<Rightarrow> (ToolError ''Query parameter is required'', w)
      | Some q \<Rightarrow>
          if q = [] then (ToolError ''Query parameter is required'', w)
          else
            let request = build_search_request q (or_default max_results 5);
                w1 = w\<lparr>retrieval_calls := retrieval_calls w @ [request]\<rparr>
            in case client request of
                 Inl message \<Rightarrow> (ToolError (''Error searching documents: '' @ message), w1)
               | Inr response \<Rightarrow>
                   let rs = map result_of_hit (hits response);
                       cid = contextId session_id' now;
                       w2 = w1\<lparr>searchContextStore := (searchContextStore w1)(cid \<mapsto> rs)\<rparr>;
                       contentText = join (nl @ nl) (map_index (result_line numberToString) rs)
                   in (ToolOk (''Found '' @ decimal (length rs) @ '' relevant documents:''
                                 @ nl @ nl @ contentText)
                         \<lparr> results = rs, total = totalHits response, session_id = cid \<rparr>,
                       w2))"

subsection \<open>\<open>summarize_results\<close>\<close>

definition document_block :: "search_result \<Rightarrow> nat \<Rightarrow> string" where
  "document_block r i = ''[Document '' @ decimal (i + 1) @ '': '' @ title r @ '']'' @ nl @ content r"

definition prompt_context :: "search_result list \<Rightarrow> string" where
  "prompt_context searchResults =
     join (nl @ nl @ ''---'' @ nl @ nl) (map_index document_block (take 5 searchResults))"

definition system_instruction :: string where
  "system_instruction = ''You are a helpful assistant that answers questions based on provided documents. Synthesize information from the documents to answer the user's question accurately and concisely. If the documents don't contain relevant information, say so.''"

definition build_chat_request :: "string \<Rightarrow> number \<Rightarrow> search_result list \<Rightarrow> chat_request" where
  "build_chat_request question max_length searchResults =
     \<lparr> model = ''gpt-4o-mini'',
       system_content = system_instruction,
       user_content = ''Question: '' @ question @ nl @ nl @ ''Relevant Documents:'' @ nl
                        @ prompt_context searchResults,
       max_tokens = min \<lceil>max_length / 4\<rceil> 1000,
       temperature = 3 / 10 \<rparr>"

text \<open>
  \<open>"AI generated summary: " + completion.choices[0]?.message?.content || "No summary generated."\<close>:
  \<open>+\<close> binds tighter than \<open>||\<close>, and an absent first choice or a null content is
  concatenated as the text \<open>undefined\<close> or \<open>null\<close>.
\<close>

definition summary_of :: "completion \<Rightarrow> string" where
  "summary_of completion =
     (let s = ''AI generated summary: ''
                @ (case completion of
                     [] \<Rightarrow> ''undefined''
                   | c # _ \<Rightarrow> (case c of None \<Rightarrow> ''null'' | Some t \<Rightarrow> t))
      in if s = [] then ''No summary generated.'' else s)"

definition session_not_found :: string where
  "session_not_found = ''No search results found for this session. Please call search_docs first.''"

definition summarize_results ::
  "synthesis_oracle \<Rightarrow> string option \<Rightarrow> string option \<Rightarrow> number option \<Rightarrow> world \<Rightarrow>
   summarize_output tool_result \<times> world" where
  "summarize_results openai session_id' question max_length w =
     (if falsy session_id' \<or> falsy question
      then (ToolError ''Both session_id and question parameters are required'', w)
      else case (session_id', question) of
        (Some sid, Some q) \<Rightarrow>
          (case searchContextStore w sid of
             None \<Rightarrow> (ToolError session_not_found, w)
           | Some searchResults \<Rightarrow>
               if length searchResults = 0 then (ToolError session_not_found, w)
               else
                 let request = build_chat_request q (or_default max_length 500) searchResults;
                     w1 = w\<lparr>synthesis_calls := synthesis_calls w @ [request]\<rparr>
                 in case openai request of
                      Inl message \<Rightarrow> (ToolError (''Error generating summary: '' @ message), w1)
                    | Inr completion \<Rightarrow>
                        (ToolOk (summary_of completion)
                           \<lparr> summary = summary_of completion,
                             sources_used = length searchResults \<rparr>,
                         w1))
      | _ \<Rightarrow> (ToolError ''Both session_id and question parameters are required'', w))"

subsection \<open>\<open>cite_sources\<close>\<close>

definition citation_of :: "search_result \<Rightarrow> citation" where
  "citation_of r =
     \<lparr> cit_id = id' r, cit_title = title r, cit_tags = tags r, relevance_score = score r \<rparr>"

definition citation_line :: "(number \<Rightarrow> string) \<Rightarrow> citation \<Rightarrow> nat \<Rightarrow> string" where
  "citation_line numberToString c i =
     ''['' @ decimal (i + 1) @ ''] ID: '' @ numberToString (cit_id c)
       @ '', Title: '' @ [CHR 0x22] @ cit_title c @ [CHR 0x22]
       @ '', Tags: '' @ join '', '' (cit_tags c)
       @ '', Score: '' @ toFixed numberToString (relevance_score c) 2"

definition cite_sources ::
  "(number \<Rightarrow> string) \<Rightarrow> string option \<Rightarrow> world \<Rightarrow> cite_output tool_result \<times> world" where
  "cite_sources numberToString session_id' w =
     (case session_id' of
        None \<Rightarrow> (ToolError ''session_id parameter is required'', w)
      | Some sid \<Rightarrow>
          if sid = [] then (ToolError ''session_id parameter is required'', w)
          else case searchContextStore w sid of
            None \<Rightarrow> (ToolError session_not_found, w)
          | Some searchResults \<Rightarrow>
              if length searchResults = 0 then (ToolError session_not_found, w)
              else
                let cs = map citation_of searchResults;
                    citationText = join nl (map_index (citation_line numberToString) cs)
                in (ToolOk (''Sources used ('' @ decimal (length cs) @ ''):'' @ nl @ nl @ citationText)
                      \<lparr> citations = cs \<rparr>,
                    w))"

section \<open>Notions used in the statements\<close>

definition is_digit :: "char \<Rightarrow> bool" where
  "is_digit c = (c \<in> set ''0123456789'')"

text \<open>
  A rendering with exactly two decimal places: an optional minus sign, at least one
  digit, a point, and two digits.
\<close>

definition has_two_decimals :: "string \<Rightarrow> bool" where
  "has_two_decimals s =
     (let body = (case s of [] \<Rightarrow> [] | c # cs \<Rightarrow> if c = CHR ''-'' then cs else s);
          k = length body
      in 4 \<le> k
         \<and> list_all is_digit (take (k - 3) body)
         \<and> body ! (k - 3) = CHR ''.''
         \<and> list_all is_digit (drop (k - 2) body))"

section \<open>Example data\<close>

text \<open>
  Stub collaborators and documents for the concrete instances below: a retrieval service
  that answers every request with given hits and total, one that throws, and the same
  for the completion service. \<open>integral_to_string\<close> stands in for \<open>Number::toString\<close> on
  the whole numbers used as document ids in the examples.
\<close>

definition stub_client :: "hit list \<Rightarrow> hits_total \<Rightarrow> retrieval_oracle" where
  "stub_client hs t request = Inr \<lparr> hits = hs, hits_total = t \<rparr>"

definition failing_client :: "string \<Rightarrow> retrieval_oracle" where
  "failing_client message request = Inl message"

definition stub_openai :: "string \<Rightarrow> synthesis_oracle" where
  "stub_openai answer request = Inr [Some answer]"

definition failing_openai :: "string \<Rightarrow> synthesis_oracle" where
  "failing_openai message request = Inl message"

definition integral_to_string :: "number \<Rightarrow> string" where
  "integral_to_string x = integer_to_string \<lfloor>x\<rfloor>"

definition initial_world :: world where
  "initial_world = \<lparr> searchContextStore = Map.empty, retrieval_calls = [], synthesis_calls = [] \<rparr>"

definition doc_a :: document where
  "doc_a = \<lparr> id' = 1, title = ''Vector databases'',
              content = ''Indexes for embeddings.'', tags = [''db'', ''search''] \<rparr>"

definition doc_b :: document where
  "doc_b = \<lparr> id' = 2, title = ''Inverted index'',
              content = replicate 250 (CHR ''x''), tags = [''search''] \<rparr>"

definition hit_a :: hit where
  "hit_a = \<lparr> hit_source = doc_a, hit_score = Some (19 / 2) \<rparr>"

definition hit_b :: hit where
  "hit_b = \<lparr> hit_source = doc_b, hit_score = Some (17 / 4) \<rparr>"

definition hit_unscored :: hit where
  "hit_unscored = \<lparr> hit_source = doc_a, hit_score = None \<rparr>"

text \<open>
  The world after a search like the scenario of the specification: two documents, scored
  9.5 and 4.25, stored under \<open>s1\<close>.
\<close>

definition searched_world :: world where
  "searched_world =
     snd (search_docs integral_to_string (stub_client [hit_a, hit_b] (TotalNumber 2)) 0
            (Some ''vector databases'') (Some 2) (Some ''s1'') initial_world)"

text \<open>A world whose session \<open>s6\<close> holds six results.\<close>

definition six_results :: "search_result list" where
  "six_results = [result_of_hit hit_a, result_of_hit hit_b, result_of_hit hit_a,
                  result_of_hit hit_b, result_of_hit hit_a, result_of_hit hit_unscored]"

definition six_world :: world where
  "six_world = initial_world\<lparr> searchContextStore := [''s6'' \<mapsto> six_results] \<rparr>"

text \<open>
  A hit scored \<open>10^21\<close>, and a stand-in for \<open>Number::toString\<close> that prints this
  number as JavaScript does, \<open>1e+21\<close>, and whole numbers below it in decimal digits.
\<close>

definition exponent_at_10_21 :: "number \<Rightarrow> string" where
  "exponent_at_10_21 x = (if x = 10 ^ 21 then ''1e+21'' else integer_to_string \<lfloor>x\<rfloor>)"

definition hit_huge :: hit where
  "hit_huge = \<lparr> hit_source = doc_a, hit_score = Some (10 ^ 21) \<rparr>"

text \<open>
  The world after a search with the empty string as session id, at the clock reading 42.
\<close>

definition minted_world :: world where
  "minted_world =
     snd (search_docs integral_to_string (stub_client [hit_a] (TotalNumber 1)) 42
            (Some ''vector databases'') None (Some []) initial_world)"

section \<open>Basic facts\<close>

subsection \<open>Evaluating the renderings\<close>

lemma decimal_0: "decimal 0 = ''0''"
  by (subst decimal.simps) (simp add: digit_char_def)

lemma decimal_1: "decimal (Suc 0) = ''1''"
  by (subst decimal.simps) (simp add: digit_char_def)

lemma decimal_numeral:
  "decimal (numeral k) =
     (if numeral k \<le> (9::nat) then [digit_char (numeral k)]
      else decimal (numeral k div 10) @ [digit_char (numeral k mod 10)])"
  by (subst decimal.simps) simp

lemma decimal_2: "decimal (Suc (Suc 0)) = ''2''"
  by (subst decimal.simps) (simp add: digit_char_def)

lemmas decimal_eval = decimal_0 decimal_1 decimal_2 decimal_numeral digit_char_def

lemma floor_rat_numeral: "\<lfloor>(numeral a :: rat) / numeral b\<rfloor> = numeral a div numeral b"
  using floor_divide_of_int_eq [of "numeral a" "numeral b", where ?'a = rat] by simp

subsection \<open>Digits\<close>

lemma is_digit_digit_char: "is_digit (digit_char d)"
proof -
  define k where "k = d mod 10"
  have "k < length ''0123456789''" by (simp add: k_def)
  then have "''0123456789'' ! k \<in> set ''0123456789''" by (rule nth_mem)
  then show ?thesis by (simp add: is_digit_def digit_char_def k_def)
qed

lemma decimal_digits: "list_all is_digit (decimal n)"
proof (induction n rule: decimal.induct)
  case (1 n)
  show ?case
  proof (cases "n \<le> 9")
    case True
    then show ?thesis by (subst decimal.simps) (simp add: is_digit_digit_char)
  next
    case False
    with 1 show ?thesis by (subst decimal.simps) (simp add: is_digit_digit_char)
  qed
qed

lemma is_digit_not_minus: "is_digit c \<Longrightarrow> c \<noteq> CHR ''-''"
  by (auto simp: is_digit_def)

lemma has_two_decimals_body:
  assumes "list_all is_digit a" and "a \<noteq> []" and "list_all is_digit b" and "length b = 2"
  shows "has_two_decimals (a @ ''.'' @ b)" and "has_two_decimals (''-'' @ a @ ''.'' @ b)"
proof -
  define body where "body = a @ ''.'' @ b"
  have len: "length body = length a + 3" by (simp add: body_def assms(4))
  then have k3: "length body - 3 = length a" and k2: "length body - 2 = Suc (length a)"
    by simp_all
  have t: "take (length a) body = a" by (simp add: body_def)
  have p: "body ! length a = CHR ''.''" by (simp add: body_def)
  have d: "drop (Suc (length a)) body = b" by (simp add: body_def)
  have ok: "4 \<le> length body \<and> list_all is_digit (take (length body - 3) body)
        \<and> body ! (length body - 3) = CHR ''.'' \<and> list_all is_digit (drop (length body - 2) body)"
    unfolding k3 k2 t p d using assms len by (cases a) simp_all
  obtain c cs where a: "a = c # cs" using assms(2) by (cases a) auto
  then have "is_digit c" using assms(1) by simp
  then have "c \<noteq> CHR ''-''" by (rule is_digit_not_minus)
  then have plain: "(case body of [] \<Rightarrow> [] | c # cs \<Rightarrow> if c = CHR ''-'' then cs else body) = body"
    using a by (simp add: body_def)
  have minus: "(case ''-'' @ body of [] \<Rightarrow> [] | c # cs \<Rightarrow> if c = CHR ''-'' then cs else ''-'' @ body) = body"
    by simp
  show "has_two_decimals (a @ ''.'' @ b)"
    unfolding has_two_decimals_def Let_def body_def [symmetric] plain using ok by blast
  show "has_two_decimals (''-'' @ a @ ''.'' @ b)"
    unfolding has_two_decimals_def Let_def body_def [symmetric] minus using ok by blast
qed

lemma point_before_last_two:
  assumes "list_all is_digit z" and "3 \<le> length z"
  shows "has_two_decimals (take (length z - 2) z @ ''.'' @ drop (length z - 2) z)"
    and "has_two_decimals (''-'' @ take (length z - 2) z @ ''.'' @ drop (length z - 2) z)"
proof -
  let ?a = "take (length z - 2) z" and ?b = "drop (length z - 2) z"
  have na: "?a \<noteq> []" and lb: "length ?b = 2"
    using assms(2) by auto
  have da: "list_all is_digit ?a"
    using assms(1) by (auto simp: list_all_iff dest: in_set_takeD)
  have db: "list_all is_digit ?b"
    using assms(1) by (auto simp: list_all_iff dest: in_set_dropD)
  show "has_two_decimals (?a @ ''.'' @ ?b)" "has_two_decimals (''-'' @ ?a @ ''.'' @ ?b)"
    using has_two_decimals_body [OF da na db lb] by blast+
qed

lemma toFixed_two_decimals:
  assumes "\<bar>x\<bar> < 10 ^ 21"
  shows "has_two_decimals (toFixed nts x 2)"
proof -
  define m0 where "m0 = decimal (nat \<lfloor>\<bar>x\<bar> * 10 ^ 2 + 1 / 2\<rfloor>)"
  define z where "z = (if length m0 \<le> 2 then replicate (2 + 1 - length m0) (CHR ''0'') @ m0 else m0)"
  have "list_all is_digit m0" unfolding m0_def by (rule decimal_digits)
  moreover have "is_digit (CHR ''0'')" by (simp add: is_digit_def)
  ultimately have dz: "list_all is_digit z" by (simp add: z_def list_all_iff)
  have lz: "3 \<le> length z" by (auto simp: z_def)
  have "toFixed nts x 2 = (if x < 0 then ''-'' else []) @ take (length z - 2) z @ ''.'' @ drop (length z - 2) z"
    using assms by (simp add: toFixed_def Let_def z_def m0_def)
  then show ?thesis using point_before_last_two [OF dz lz] by simp
qed

lemma toFixed_from_10_21:
  assumes "10 ^ 21 \<le> \<bar>x\<bar>"
  shows "toFixed nts x f = (if x < 0 then ''-'' else []) @ nts \<bar>x\<bar>"
  using assms by (simp add: toFixed_def Let_def)

subsection \<open>Joining\<close>

lemma join_concat:
  "join sep xs = (case xs of [] \<Rightarrow> [] | x # rest \<Rightarrow> x @ concat (map (\<lambda>y. sep @ y) rest))"
  by (induction sep xs rule: join.induct) simp_all

lemma list_of_two: "length xs = 2 \<Longrightarrow> xs = [xs ! 0, xs ! 1]"
  by (cases xs; cases "tl xs") auto

subsection \<open>Indexed map\<close>

lemma length_map_index: "length (map_index f xs) = length xs"
  by (simp add: map_index_def)

lemma nth_map_index: "i < length xs \<Longrightarrow> map_index f xs ! i = f (xs ! i) i"
  by (simp add: map_index_def nth_enumerate_eq)

subsection \<open>The effective session id\<close>

lemma contextId_not_empty: "contextId s now \<noteq> []" "[] \<noteq> contextId s now"
  by (simp_all add: contextId_def split: option.splits)

lemma contextId_explicit: "s \<noteq> [] \<Longrightarrow> contextId (Some s) now = s"
  by (simp add: contextId_def)

lemma contextId_minted:
  "contextId None now = ''session_'' @ integer_to_string now"
  "contextId (Some []) now = ''session_'' @ integer_to_string now"
  by (simp_all add: contextId_def)

subsection \<open>What each handler returns on its main path\<close>

lemma search_docs_returns:
  assumes "q \<noteq> []"
    and "client (build_search_request q (or_default max_results 5)) = Inr response"
  shows "search_docs nts client now (Some q) max_results sid w =
           (ToolOk (''Found '' @ decimal (length (hits response)) @ '' relevant documents:''
                      @ nl @ nl
                      @ join (nl @ nl) (map_index (result_line nts) (map result_of_hit (hits response))))
              \<lparr> results = map result_of_hit (hits response),
                total = totalHits response,
                session_id = contextId sid now \<rparr>,
            w\<lparr> retrieval_calls := retrieval_calls w @ [build_search_request q (or_default max_results 5)],
               searchContextStore :=
                 (searchContextStore w)(contextId sid now \<mapsto> map result_of_hit (hits response)) \<rparr>)"
  using assms by (simp add: search_docs_def Let_def)

lemma search_docs_ok_store:
  assumes "search_docs nts client now query max_results sid w = (ToolOk text out, w')"
  shows "searchContextStore w' = (searchContextStore w)(session_id out \<mapsto> results out)"
  using assms by (auto simp: search_docs_def Let_def split: option.splits if_splits sum.splits)

lemma search_docs_ok_id:
  assumes "search_docs nts client now query max_results sid w = (ToolOk text out, w')"
  shows "session_id out \<noteq> []"
  using assms
  by (auto simp: search_docs_def Let_def contextId_not_empty split: option.splits if_splits sum.splits)

lemma cite_sources_stored:
  assumes "s \<noteq> []" and "searchContextStore w s = Some rs"
  shows "cite_sources nts (Some s) w =
           (if rs = [] then (ToolError session_not_found, w)
            else (ToolOk (''Sources used ('' @ decimal (length rs) @ ''):'' @ nl @ nl
                            @ join nl (map_index (citation_line nts) (map citation_of rs)))
                    \<lparr> citations = map citation_of rs \<rparr>, w))"
  using assms by (simp add: cite_sources_def Let_def)

lemma cite_sources_absent:
  assumes "s \<noteq> []" and "searchContextStore w s = None"
  shows "cite_sources nts (Some s) w = (ToolError session_not_found, w)"
  using assms by (simp add: cite_sources_def)

lemma summarize_results_stored:
  assumes "s \<noteq> []" and "question \<noteq> []" and "searchContextStore w s = Some rs"
  shows "summarize_results openai (Some s) (Some question) max_length w =
           (if rs = [] then (ToolError session_not_found, w)
            else case openai (build_chat_request question (or_default max_length 500) rs) of
                   Inl message \<Rightarrow>
                     (ToolError (''Error generating summary: '' @ message),
                      w\<lparr>synthesis_calls := synthesis_calls w
                           @ [build_chat_request question (or_default max_length 500) rs]\<rparr>)
                 | Inr completion \<Rightarrow>
                     (ToolOk (summary_of completion)
                        \<lparr> summary = summary_of completion, sources_used = length rs \<rparr>,
                      w\<lparr>synthesis_calls := synthesis_calls w
                           @ [build_chat_request question (or_default max_length 500) rs]\<rparr>))"
  using assms by (simp add: summarize_results_def falsy_def Let_def split: sum.splits)

lemma summarize_results_reads_one_context:
  assumes "searchContextStore w s = searchContextStore w' s"
  shows "fst (summarize_results openai (Some s) question max_length w)
       = fst (summarize_results openai (Some s) question max_length w')"
  using assms
  by (simp add: summarize_results_def Let_def split: option.splits sum.splits)

lemma build_chat_request_take:
  "build_chat_request question max_length (take 5 rs) = build_chat_request question max_length rs"
  by (simp add: build_chat_request_def prompt_context_def)

lemma searched_world_store:
  "searchContextStore searched_world = [''s1'' \<mapsto> [result_of_hit hit_a, result_of_hit hit_b]]"
  by (simp add: searched_world_def search_docs_returns stub_client_def contextId_explicit
      initial_world_def)

section \<open>The claims\<close>

subsection \<open>C1: results and total of a search\<close>

text \<open>
  Claim C1 says that the reported total falls back to the number of returned results
  when the service reports no count, so that the total is never below that number. The
  source falls back to \<open>0\<close>: with one hit and no reported count the total is \<open>0\<close>.
\<close>

theorem total_fallback_counterexample:
  "map_option total (structuredContent (fst
     (search_docs integral_to_string (stub_client [hit_a] TotalUndefined) 0
        (Some ''vector databases'') (Some 2) (Some ''s1'') initial_world))) = Some 0
   \<and> map_option (length \<circ> results) (structuredContent (fst
     (search_docs integral_to_string (stub_client [hit_a] TotalUndefined) 0
        (Some ''vector databases'') (Some 2) (Some ''s1'') initial_world))) = Some 1"
  by (simp add: search_docs_returns stub_client_def structuredContent_def totalHits_def)

text \<open>
  Claim C1, amended: for every call of \<open>search_docs\<close> with a non-empty query for which
  the retrieval service returns \<open>n\<close> hits, the structured result holds exactly \<open>n\<close>
  results, the \<open>i\<close>-th one carrying the document of the \<open>i\<close>-th hit and its score
  (\<open>0\<close> when the hit has none); \<open>total\<close> is the count the service reports, as a number
  or as the \<open>value\<close> of an object, and \<open>0\<close> when it reports none.
\<close>

theorem search_results_and_total:
  assumes "q \<noteq> []"
    and "client (build_search_request q (or_default max_results 5)) = Inr response"
  shows "\<exists>text out.
           fst (search_docs nts client now (Some q) max_results sid w) = ToolOk text out
         \<and> length (results out) = length (hits response)
         \<and> (\<forall>i < length (hits response).
               id' (results out ! i) = id' (hit_source (hits response ! i))
             \<and> title (results out ! i) = title (hit_source (hits response ! i))
             \<and> content (results out ! i) = content (hit_source (hits response ! i))
             \<and> tags (results out ! i) = tags (hit_source (hits response ! i))
             \<and> score (results out ! i)
                 = (case hit_score (hits response ! i) of None \<Rightarrow> 0 | Some s \<Rightarrow> s))
         \<and> (\<forall>n. hits_total response = TotalNumber n \<or> hits_total response = TotalObject (Some n)
                  \<longrightarrow> total out = n)
         \<and> (hits_total response = TotalUndefined \<or> hits_total response = TotalObject None
                  \<longrightarrow> total out = 0)"
  using assms
  by (auto simp: search_docs_returns totalHits_def result_of_hit_def or_default_def)

text \<open>An instance of C1: two hits, one of them without a score, and a reported count of 7.\<close>

theorem search_results_and_total_witness:
  "\<exists>text out.
     fst (search_docs integral_to_string (stub_client [hit_a, hit_unscored] (TotalObject (Some 7))) 0
            (Some ''vector databases'') (Some 2) (Some ''s1'') initial_world) = ToolOk text out
   \<and> length (results out) = 2
   \<and> title (results out ! 0) = ''Vector databases''
   \<and> score (results out ! 0) = 19 / 2
   \<and> score (results out ! 1) = 0
   \<and> total out = 7"
proof -
  let ?response = "\<lparr> hits = [hit_a, hit_unscored], hits_total = TotalObject (Some 7) \<rparr>"
  have q: "''vector databases'' \<noteq> []" by simp
  have r: "stub_client [hit_a, hit_unscored] (TotalObject (Some 7))
             (build_search_request ''vector databases'' (or_default (Some 2) 5)) = Inr ?response"
    by (simp add: stub_client_def)
  from search_results_and_total [where q = "''vector databases''" and max_results = "Some 2"
      and client = "stub_client [hit_a, hit_unscored] (TotalObject (Some 7))"
      and response = "?response" and nts = integral_to_string and now = 0
      and sid = "Some ''s1''" and w = initial_world, OF q r]
  obtain narrative out where
    ok: "fst (search_docs integral_to_string (stub_client [hit_a, hit_unscored] (TotalObject (Some 7))) 0
            (Some ''vector databases'') (Some 2) (Some ''s1'') initial_world) = ToolOk narrative out"
    and len: "length (results out) = length (hits ?response)"
    and each: "\<forall>i < length (hits ?response).
               id' (results out ! i) = id' (hit_source (hits ?response ! i))
             \<and> title (results out ! i) = title (hit_source (hits ?response ! i))
             \<and> content (results out ! i) = content (hit_source (hits ?response ! i))
             \<and> tags (results out ! i) = tags (hit_source (hits ?response ! i))
             \<and> score (results out ! i)
                 = (case hit_score (hits ?response ! i) of None \<Rightarrow> 0 | Some s \<Rightarrow> s)"
    and tot: "\<forall>n. hits_total ?response = TotalNumber n \<or> hits_total ?response = TotalObject (Some n)
                  \<longrightarrow> total out = n"
    by blast
  from each have "title (results out ! 0) = ''Vector databases''"
    and "score (results out ! 0) = 19 / 2" and "score (results out ! 1) = 0"
    by (simp_all add: hit_a_def hit_unscored_def doc_a_def)
  moreover from tot have "total out = 7" by simp
  moreover from len have "length (results out) = 2" by simp
  ultimately show ?thesis using ok by blast
qed

subsection \<open>C2: citing what was searched\<close>

text \<open>
  Claim C2 says that after every successful search under an explicit session id, citing
  that id returns the citations of the stored results. A search that finds nothing is
  successful and stores the empty list, and \<open>cite_sources\<close> answers an empty list with
  its "no search results" error.
\<close>

theorem cite_after_empty_search_counterexample:
  "fst (search_docs integral_to_string (stub_client [] (TotalNumber 0)) 0
          (Some ''vector databases'') (Some 2) (Some ''s1'') initial_world)
     = ToolOk (''Found 0 relevant documents:'' @ nl @ nl)
         \<lparr> results = [], total = 0, session_id = ''s1'' \<rparr>
   \<and> fst (cite_sources integral_to_string (Some ''s1'')
          (snd (search_docs integral_to_string (stub_client [] (TotalNumber 0)) 0
                  (Some ''vector databases'') (Some 2) (Some ''s1'') initial_world)))
     = ToolError session_not_found"
  by (simp add: search_docs_returns stub_client_def contextId_explicit cite_sources_stored
      totalHits_def map_index_def decimal_eval)

text \<open>
  Claim C2, amended: after a successful call of \<open>search_docs\<close> with a non-empty
  \<open>session_id\<close> that returned at least one result, \<open>cite_sources\<close> with the same id
  succeeds with one citation for every stored result, none left out, whose id, title,
  tags and relevance score are, position by position, those of the results returned by
  the search.
\<close>

theorem cite_matches_search:
  assumes "s \<noteq> []" and "q \<noteq> []"
    and "client (build_search_request q (or_default max_results 5)) = Inr response"
    and "hits response \<noteq> []"
  shows "\<exists>text out w' text' cs.
           search_docs nts client now (Some q) max_results (Some s) w = (ToolOk text out, w')
         \<and> searchContextStore w' s = Some (results out)
         \<and> cite_sources nts (Some s) w' = (ToolOk text' \<lparr> citations = cs \<rparr>, w')
         \<and> length cs = length (results out)
         \<and> (\<forall>i < length cs.
               cit_id (cs ! i) = id' (results out ! i)
             \<and> cit_title (cs ! i) = title (results out ! i)
             \<and> cit_tags (cs ! i) = tags (results out ! i)
             \<and> relevance_score (cs ! i) = score (results out ! i))"
  using assms
  by (simp add: search_docs_returns cite_sources_stored citation_of_def contextId_explicit)

text \<open>An instance of C2: the scenario's two documents, cited from session \<open>s1\<close>.\<close>

theorem cite_matches_search_witness:
  "\<exists>text' cs.
     cite_sources integral_to_string (Some ''s1'') searched_world
       = (ToolOk text' \<lparr> citations = cs \<rparr>, searched_world)
   \<and> length cs = 2
   \<and> cit_id (cs ! 0) = 1 \<and> cit_title (cs ! 0) = ''Vector databases''
   \<and> cit_tags (cs ! 0) = [''db'', ''search''] \<and> relevance_score (cs ! 0) = 19 / 2
   \<and> cit_id (cs ! 1) = 2 \<and> cit_title (cs ! 1) = ''Inverted index''
   \<and> cit_tags (cs ! 1) = [''search''] \<and> relevance_score (cs ! 1) = 17 / 4"
proof -
  let ?response = "\<lparr> hits = [hit_a, hit_b], hits_total = TotalNumber 2 \<rparr>"
  have s: "''s1'' \<noteq> []" and q: "''vector databases'' \<noteq> []" by simp_all
  have r: "stub_client [hit_a, hit_b] (TotalNumber 2)
             (build_search_request ''vector databases'' (or_default (Some 2) 5)) = Inr ?response"
    by (simp add: stub_client_def)
  have h: "hits ?response \<noteq> []" by simp
  from cite_matches_search [where s = "''s1''" and q = "''vector databases''"
      and max_results = "Some 2" and client = "stub_client [hit_a, hit_b] (TotalNumber 2)"
      and response = "?response" and nts = integral_to_string and now = 0
      and w = initial_world, OF s q r h]
  obtain narrative out w' narrative' cs where
    ok: "search_docs integral_to_string (stub_client [hit_a, hit_b] (TotalNumber 2)) 0
           (Some ''vector databases'') (Some 2) (Some ''s1'') initial_world = (ToolOk narrative out, w')"
    and stored: "searchContextStore w' ''s1'' = Some (results out)"
    and cite: "cite_sources integral_to_string (Some ''s1'') w' = (ToolOk narrative' \<lparr> citations = cs \<rparr>, w')"
    and len: "length cs = length (results out)"
    and each: "\<forall>i < length cs.
               cit_id (cs ! i) = id' (results out ! i)
             \<and> cit_title (cs ! i) = title (results out ! i)
             \<and> cit_tags (cs ! i) = tags (results out ! i)
             \<and> relevance_score (cs ! i) = score (results out ! i)"
    by blast
  from ok have w': "w' = searched_world" by (simp add: searched_world_def)
  from stored have out: "results out = [result_of_hit hit_a, result_of_hit hit_b]"
    by (simp add: w' searched_world_store)
  from len out have l2: "length cs = 2" by simp
  with each have "cit_id (cs ! 0) = id' (results out ! 0)
             \<and> cit_title (cs ! 0) = title (results out ! 0)
             \<and> cit_tags (cs ! 0) = tags (results out ! 0)
             \<and> relevance_score (cs ! 0) = score (results out ! 0)"
    and "cit_id (cs ! 1) = id' (results out ! 1)
             \<and> cit_title (cs ! 1) = title (results out ! 1)
             \<and> cit_tags (cs ! 1) = tags (results out ! 1)
             \<and> relevance_score (cs ! 1) = score (results out ! 1)"
    by simp_all
  then have "cit_id (cs ! 0) = 1 \<and> cit_title (cs ! 0) = ''Vector databases''
   \<and> cit_tags (cs ! 0) = [''db'', ''search''] \<and> relevance_score (cs ! 0) = 19 / 2
   \<and> cit_id (cs ! 1) = 2 \<and> cit_title (cs ! 1) = ''Inverted index''
   \<and> cit_tags (cs ! 1) = [''search''] \<and> relevance_score (cs ! 1) = 17 / 4"
    by (simp add: out result_of_hit_def hit_a_def hit_b_def doc_a_def doc_b_def or_default_def)
  with cite l2 show ?thesis unfolding w' by blast
qed

subsection \<open>C3: a second search under the same id\<close>

text \<open>
  Claim C3: when two calls of \<open>search_docs\<close> succeed one after the other under the same
  session id, the store afterwards is the store before the first call with the second
  call's results under that id, so nothing of the first call's results is left. What
  \<open>cite_sources\<close> then returns for the id is computed from the second call's results
  alone; \<open>summarize_results\<close> returns what it returns in any world holding those results
  under the id, and on success reports their number as \<open>sources_used\<close>.
\<close>

theorem second_search_replaces_context:
  assumes "search_docs nts client1 now1 query1 max_results1 sid1 w0 = (ToolOk text1 out1, w1)"
    and "search_docs nts client2 now2 query2 max_results2 sid2 w1 = (ToolOk text2 out2, w2)"
    and "session_id out1 = session_id out2"
  shows "searchContextStore w2 = (searchContextStore w0)(session_id out2 \<mapsto> results out2)
       \<and> fst (cite_sources nts (Some (session_id out2)) w2)
           = (if results out2 = [] then ToolError session_not_found
              else ToolOk (''Sources used ('' @ decimal (length (results out2)) @ ''):'' @ nl @ nl
                            @ join nl (map_index (citation_line nts) (map citation_of (results out2))))
                     \<lparr> citations = map citation_of (results out2) \<rparr>)
       \<and> (\<forall>w'. searchContextStore w' (session_id out2) = Some (results out2) \<longrightarrow>
              fst (summarize_results openai (Some (session_id out2)) question max_length w2)
            = fst (summarize_results openai (Some (session_id out2)) question max_length w'))
       \<and> (q \<noteq> [] \<and> results out2 \<noteq> []
            \<and> openai (build_chat_request q (or_default max_length 500) (results out2)) = Inr completion
           \<longrightarrow> fst (summarize_results openai (Some (session_id out2)) (Some q) max_length w2)
                 = ToolOk (summary_of completion)
                     \<lparr> summary = summary_of completion, sources_used = length (results out2) \<rparr>)"
proof -
  have s1: "searchContextStore w1 = (searchContextStore w0)(session_id out1 \<mapsto> results out1)"
    using assms(1) by (rule search_docs_ok_store)
  have s2: "searchContextStore w2 = (searchContextStore w1)(session_id out2 \<mapsto> results out2)"
    using assms(2) by (rule search_docs_ok_store)
  have ne: "session_id out2 \<noteq> []"
    using assms(2) by (rule search_docs_ok_id)
  have store: "searchContextStore w2 = (searchContextStore w0)(session_id out2 \<mapsto> results out2)"
    unfolding s2 s1 assms(3) by simp
  then have at: "searchContextStore w2 (session_id out2) = Some (results out2)" by simp
  have c: "fst (cite_sources nts (Some (session_id out2)) w2)
           = (if results out2 = [] then ToolError session_not_found
              else ToolOk (''Sources used ('' @ decimal (length (results out2)) @ ''):'' @ nl @ nl
                            @ join nl (map_index (citation_line nts) (map citation_of (results out2))))
                     \<lparr> citations = map citation_of (results out2) \<rparr>)"
    by (simp add: cite_sources_stored [OF ne at])
  have d: "\<forall>w'. searchContextStore w' (session_id out2) = Some (results out2) \<longrightarrow>
              fst (summarize_results openai (Some (session_id out2)) question max_length w2)
            = fst (summarize_results openai (Some (session_id out2)) question max_length w')"
    using at by (simp add: summarize_results_reads_one_context)
  have s: "q \<noteq> [] \<and> results out2 \<noteq> []
            \<and> openai (build_chat_request q (or_default max_length 500) (results out2)) = Inr completion
           \<longrightarrow> fst (summarize_results openai (Some (session_id out2)) (Some q) max_length w2)
                 = ToolOk (summary_of completion)
                     \<lparr> summary = summary_of completion, sources_used = length (results out2) \<rparr>"
    by (simp add: summarize_results_stored [OF ne _ at])
  from store c d s show ?thesis by blast
qed

text \<open>
  An instance of C3: on the world of the scenario, a second search under \<open>s1\<close> finds one
  document; citing and summarising see that one document only.
\<close>

theorem second_search_replaces_context_witness:
  "searchContextStore (snd (search_docs integral_to_string (stub_client [hit_b] (TotalNumber 1)) 1
        (Some ''inverted index'') None (Some ''s1'') searched_world)) ''s1''
     = Some [result_of_hit hit_b]
   \<and> structuredContent (fst (cite_sources integral_to_string (Some ''s1'')
        (snd (search_docs integral_to_string (stub_client [hit_b] (TotalNumber 1)) 1
           (Some ''inverted index'') None (Some ''s1'') searched_world))))
     = Some \<lparr> citations = [citation_of (result_of_hit hit_b)] \<rparr>
   \<and> structuredContent (fst (summarize_results (stub_openai ''answer'') (Some ''s1'') (Some ''why'') None
        (snd (search_docs integral_to_string (stub_client [hit_b] (TotalNumber 1)) 1
           (Some ''inverted index'') None (Some ''s1'') searched_world))))
     = Some \<lparr> summary = ''AI generated summary: answer'', sources_used = 1 \<rparr>"
proof -
  have "\<exists>t1 o1. search_docs integral_to_string (stub_client [hit_a, hit_b] (TotalNumber 2)) 0
            (Some ''vector databases'') (Some 2) (Some ''s1'') initial_world
          = (ToolOk t1 o1, searched_world) \<and> session_id o1 = ''s1''"
    by (simp add: searched_world_def search_docs_returns stub_client_def contextId_explicit)
  then obtain t1 o1 where
    e1: "search_docs integral_to_string (stub_client [hit_a, hit_b] (TotalNumber 2)) 0
            (Some ''vector databases'') (Some 2) (Some ''s1'') initial_world
          = (ToolOk t1 o1, searched_world)"
    and i1: "session_id o1 = ''s1''" by blast
  have "\<exists>t2 o2 w2. search_docs integral_to_string (stub_client [hit_b] (TotalNumber 1)) 1
            (Some ''inverted index'') None (Some ''s1'') searched_world = (ToolOk t2 o2, w2)
          \<and> session_id o2 = ''s1'' \<and> results o2 = [result_of_hit hit_b]"
    by (simp add: search_docs_returns stub_client_def contextId_explicit)
  then obtain t2 o2 w2 where
    e2: "search_docs integral_to_string (stub_client [hit_b] (TotalNumber 1)) 1
            (Some ''inverted index'') None (Some ''s1'') searched_world = (ToolOk t2 o2, w2)"
    and i2: "session_id o2 = ''s1''" and r2: "results o2 = [result_of_hit hit_b]" by blast
  have same: "session_id o1 = session_id o2" by (simp add: i1 i2)
  note replaced = second_search_replaces_context [OF e1 e2 same,
      where q = "''why''" and openai = "stub_openai ''answer''" and max_length = None
        and completion = "[Some ''answer'']"]
  from replaced have "searchContextStore w2 ''s1'' = Some [result_of_hit hit_b]"
    by (simp add: i2 r2)
  moreover from replaced have "structuredContent (fst (cite_sources integral_to_string (Some ''s1'') w2))
     = Some \<lparr> citations = [citation_of (result_of_hit hit_b)] \<rparr>"
    by (simp add: i2 r2 structuredContent_def)
  moreover from replaced have "structuredContent (fst (summarize_results (stub_openai ''answer'')
        (Some ''s1'') (Some ''why'') None w2))
     = Some \<lparr> summary = ''AI generated summary: answer'', sources_used = 1 \<rparr>"
    by (simp add: i2 r2 structuredContent_def stub_openai_def summary_of_def)
  ultimately show ?thesis by (simp add: e2)
qed

subsection \<open>C4: a failing collaborator leaves the store alone\<close>

text \<open>
  Claim C4: when the retrieval call of \<open>search_docs\<close> throws, the handler returns a tool
  error whose text carries the thrown message, and \<open>searchContextStore\<close> is as before
  (the store is written only after the call has returned). When the completion call of
  \<open>summarize_results\<close> throws, the handler likewise returns a tool error carrying the
  message; and no call of \<open>summarize_results\<close>, failing or not, changes the store.
\<close>

theorem oracle_failure_leaves_store:
  "(q \<noteq> [] \<and> client (build_search_request q (or_default max_results 5)) = Inl message
      \<longrightarrow> fst (search_docs nts client now (Some q) max_results sid w)
            = ToolError (''Error searching documents: '' @ message)
          \<and> searchContextStore (snd (search_docs nts client now (Some q) max_results sid w))
            = searchContextStore w)
   \<and> (s \<noteq> [] \<and> question \<noteq> [] \<and> searchContextStore w s = Some ctx \<and> ctx \<noteq> []
        \<and> openai (build_chat_request question (or_default max_length 500) ctx) = Inl message'
      \<longrightarrow> fst (summarize_results openai (Some s) (Some question) max_length w)
            = ToolError (''Error generating summary: '' @ message'))
   \<and> searchContextStore (snd (summarize_results openai sid' question' max_length' w))
        = searchContextStore w"
  by (auto simp: falsy_def search_docs_def summarize_results_def Let_def
           split: option.splits sum.splits)

text \<open>An instance of C4: a refused connection and a rate limit, on the world of the scenario.\<close>

theorem oracle_failure_leaves_store_witness:
  "fst (search_docs integral_to_string (failing_client ''connect ECONNREFUSED'') 0
          (Some ''vector databases'') None (Some ''s1'') searched_world)
     = ToolError ''Error searching documents: connect ECONNREFUSED''
   \<and> searchContextStore (snd (search_docs integral_to_string (failing_client ''connect ECONNREFUSED'') 0
          (Some ''vector databases'') None (Some ''s1'') searched_world))
     = searchContextStore searched_world
   \<and> fst (summarize_results (failing_openai ''rate limit'') (Some ''s1'') (Some ''why'') None
            searched_world)
     = ToolError ''Error generating summary: rate limit''
   \<and> searchContextStore (snd (summarize_results (failing_openai ''rate limit'') (Some ''s1'')
            (Some ''why'') None searched_world))
     = searchContextStore searched_world"
  using oracle_failure_leaves_store [where q = "''vector databases''"
      and client = "failing_client ''connect ECONNREFUSED''" and max_results = None
      and message = "''connect ECONNREFUSED''" and nts = integral_to_string and now = 0
      and sid = "Some ''s1''" and w = searched_world and s = "''s1''" and question = "''why''"
      and ctx = "[result_of_hit hit_a, result_of_hit hit_b]"
      and openai = "failing_openai ''rate limit''" and max_length = None
      and message' = "''rate limit''" and sid' = "Some ''s1''" and question' = "Some ''why''"
      and max_length' = None]
  by (simp add: failing_client_def failing_openai_def searched_world_store)

subsection \<open>C5: no stored context\<close>

text \<open>
  Claim C5: a call of \<open>cite_sources\<close> or \<open>summarize_results\<close> that passes the check of its
  required arguments (C7 covers the others) and whose \<open>session_id\<close> is absent from the
  store, or stored with an empty result list, returns the error "No search results found
  for this session. Please call search_docs first." and the world unchanged: no request
  is sent to either service and the store is not written. The text differs from the
  texts of the other errors of these two handlers.
\<close>

theorem session_not_found_without_effects:
  "(s \<noteq> [] \<and> (searchContextStore w s = None \<or> searchContextStore w s = Some [])
      \<longrightarrow> cite_sources nts (Some s) w = (ToolError session_not_found, w))
   \<and> (s \<noteq> [] \<and> question \<noteq> []
        \<and> (searchContextStore w s = None \<or> searchContextStore w s = Some [])
      \<longrightarrow> summarize_results openai (Some s) (Some question) max_length w
            = (ToolError session_not_found, w))
   \<and> session_not_found \<noteq> ''Both session_id and question parameters are required''
   \<and> session_not_found \<noteq> ''session_id parameter is required''
   \<and> session_not_found \<noteq> ''Error generating summary: '' @ message"
  by (auto simp: falsy_def summarize_results_def cite_sources_def session_not_found_def)

text \<open>An instance of C5: a session id that was never searched.\<close>

theorem session_not_found_without_effects_witness:
  "cite_sources integral_to_string (Some ''s9'') initial_world
     = (ToolError session_not_found, initial_world)
   \<and> summarize_results (stub_openai ''answer'') (Some ''s9'') (Some ''why'') None initial_world
     = (ToolError session_not_found, initial_world)"
  using session_not_found_without_effects [of "''s9''" initial_world integral_to_string "''why''"
      "stub_openai ''answer''" None]
  by (simp add: initial_world_def)

subsection \<open>C6: five documents in the prompt, all of them counted\<close>

text \<open>
  Claim C6: for a call of \<open>summarize_results\<close> on a stored context of \<open>m\<close> results whose
  completion call returns, the request sent is the one built from the first five results
  only (its user content joins \<open>min 5 m\<close> labelled blocks, the \<open>i\<close>-th one showing the
  title and content of the \<open>i\<close>-th result), and \<open>sources_used\<close> is \<open>m\<close>.
\<close>

theorem sources_used_is_full_context:
  assumes "s \<noteq> []" and "question \<noteq> []"
    and "searchContextStore w s = Some ctx" and "ctx \<noteq> []"
    and "openai (build_chat_request question (or_default max_length 500) ctx) = Inr completion"
  shows "\<exists>text out w'.
           summarize_results openai (Some s) (Some question) max_length w = (ToolOk text out, w')
         \<and> sources_used out = length ctx
         \<and> synthesis_calls w'
             = synthesis_calls w @ [build_chat_request question (or_default max_length 500) (take 5 ctx)]
         \<and> user_content (build_chat_request question (or_default max_length 500) (take 5 ctx))
             = ''Question: '' @ question @ nl @ nl @ ''Relevant Documents:'' @ nl
                 @ join (nl @ nl @ ''---'' @ nl @ nl) (map_index document_block (take 5 ctx))
         \<and> length (map_index document_block (take 5 ctx)) = min 5 (length ctx)
         \<and> (\<forall>i < min 5 (length ctx).
               map_index document_block (take 5 ctx) ! i
                 = ''[Document '' @ decimal (i + 1) @ '': '' @ title (ctx ! i) @ '']'' @ nl
                     @ content (ctx ! i))"
proof -
  have r: "summarize_results openai (Some s) (Some question) max_length w =
      (ToolOk (summary_of completion)
         \<lparr> summary = summary_of completion, sources_used = length ctx \<rparr>,
       w\<lparr>synthesis_calls := synthesis_calls w
            @ [build_chat_request question (or_default max_length 500) ctx]\<rparr>)"
    using assms(4,5) by (simp add: summarize_results_stored [OF assms(1,2,3)])
  have u: "user_content (build_chat_request question (or_default max_length 500) (take 5 ctx))
             = ''Question: '' @ question @ nl @ nl @ ''Relevant Documents:'' @ nl
                 @ join (nl @ nl @ ''---'' @ nl @ nl) (map_index document_block (take 5 ctx))"
    by (simp add: build_chat_request_def prompt_context_def)
  have l: "length (map_index document_block (take 5 ctx)) = min 5 (length ctx)"
    by (simp add: length_map_index min.commute)
  have b: "\<forall>i < min 5 (length ctx).
               map_index document_block (take 5 ctx) ! i
                 = ''[Document '' @ decimal (i + 1) @ '': '' @ title (ctx ! i) @ '']'' @ nl
                     @ content (ctx ! i)"
    by (simp add: nth_map_index document_block_def)
  show ?thesis unfolding r using u l b by (simp add: build_chat_request_take)
qed

text \<open>An instance of C6: six stored results, five blocks in the prompt, \<open>sources_used = 6\<close>.\<close>

theorem sources_used_is_full_context_witness:
  "\<exists>text out w'.
     summarize_results (stub_openai ''answer'') (Some ''s6'') (Some ''why'') None six_world
       = (ToolOk text out, w')
   \<and> sources_used out = 6
   \<and> synthesis_calls w' = [build_chat_request ''why'' 500 (take 5 six_results)]
   \<and> length (map_index document_block (take 5 six_results)) = 5"
proof -
  have s: "''s6'' \<noteq> []" and q: "''why'' \<noteq> []" by simp_all
  have st: "searchContextStore six_world ''s6'' = Some six_results" by (simp add: six_world_def)
  have ne: "six_results \<noteq> []" by (simp add: six_results_def)
  have o: "stub_openai ''answer'' (build_chat_request ''why'' (or_default None 500) six_results)
             = Inr [Some ''answer'']"
    by (simp add: stub_openai_def)
  from sources_used_is_full_context [where openai = "stub_openai ''answer''"
      and max_length = None and completion = "[Some ''answer'']", OF s q st ne o]
  obtain narrative out w' where
    "summarize_results (stub_openai ''answer'') (Some ''s6'') (Some ''why'') None six_world
       = (ToolOk narrative out, w')"
    and "sources_used out = length six_results"
    and "synthesis_calls w'
           = synthesis_calls six_world @ [build_chat_request ''why'' (or_default None 500) (take 5 six_results)]"
    and "length (map_index document_block (take 5 six_results)) = min 5 (length six_results)"
    by blast
  moreover have "length six_results = 6" by (simp add: six_results_def)
  moreover have "synthesis_calls six_world = []" by (simp add: six_world_def initial_world_def)
  ultimately show ?thesis by (simp add: or_default_def)
qed

subsection \<open>C7: empty required arguments\<close>

text \<open>
  Claim C7: a call whose required string argument is missing or empty (the \<open>query\<close> of
  \<open>search_docs\<close>; the \<open>session_id\<close> or the \<open>question\<close> of \<open>summarize_results\<close>; the
  \<open>session_id\<close> of \<open>cite_sources\<close>) returns the handler's "required" error, whatever
  the services and the store are, and the world unchanged: no request has been sent and
  the store has not been touched.
\<close>

theorem empty_arguments_rejected_first:
  "(falsy query \<longrightarrow>
      search_docs nts client now query max_results sid w
        = (ToolError ''Query parameter is required'', w))
   \<and> (falsy sid \<or> falsy question \<longrightarrow>
      summarize_results openai sid question max_length w
        = (ToolError ''Both session_id and question parameters are required'', w))
   \<and> (falsy sid \<longrightarrow>
      cite_sources nts sid w = (ToolError ''session_id parameter is required'', w))"
  by (auto simp: falsy_def search_docs_def summarize_results_def cite_sources_def
           split: option.splits)

text \<open>An instance of C7: an empty query, a missing question and an empty session id.\<close>

theorem empty_arguments_rejected_first_witness:
  "search_docs integral_to_string (stub_client [hit_a] (TotalNumber 1)) 0 (Some []) None (Some ''s1'')
       initial_world
     = (ToolError ''Query parameter is required'', initial_world)
   \<and> summarize_results (stub_openai ''answer'') (Some ''s1'') None None initial_world
     = (ToolError ''Both session_id and question parameters are required'', initial_world)
   \<and> cite_sources integral_to_string (Some []) initial_world
     = (ToolError ''session_id parameter is required'', initial_world)"
  using empty_arguments_rejected_first [of "Some []" integral_to_string
      "stub_client [hit_a] (TotalNumber 1)" 0 None "Some ''s1''" initial_world]
    empty_arguments_rejected_first [of None integral_to_string
      "stub_client [hit_a] (TotalNumber 1)" 0 None "Some ''s1''" initial_world None
      "stub_openai ''answer''" None]
    empty_arguments_rejected_first [of None integral_to_string
      "stub_client [hit_a] (TotalNumber 1)" 0 None "Some []" initial_world None
      "stub_openai ''answer''" None]
  by (simp add: falsy_def)

subsection \<open>C8: the narrative of a search\<close>

text \<open>
  Claim C8 says that every result's line shows the score with exactly two decimal
  places. The line prints the score with \<open>toFixed(2)\<close>, which from \<open>10^21\<close> on returns
  what \<open>Number::toString\<close> returns: a score of \<open>10^21\<close> is printed as \<open>1e+21\<close>.
\<close>

theorem exponent_score_counterexample:
  "fst (search_docs exponent_at_10_21 (stub_client [hit_huge] (TotalNumber 1)) 0
          (Some ''vector databases'') None (Some ''s1'') initial_world)
     = ToolOk (''Found 1 relevant documents:'' @ nl @ nl
                 @ ''[1] Vector databases (score: 1e+21)'' @ nl @ ''Indexes for embeddings....'')
         \<lparr> results = [result_of_hit hit_huge], total = 1, session_id = ''s1'' \<rparr>
   \<and> \<not> has_two_decimals ''1e+21''"
  by (simp add: search_docs_returns stub_client_def contextId_explicit totalHits_def
      map_index_def result_line_def result_of_hit_def hit_huge_def doc_a_def or_default_def
      toFixed_def Let_def exponent_at_10_21_def decimal_eval has_two_decimals_def is_digit_def)

text \<open>
  Claim C8, amended: the text of a successful search is the heading followed by one line
  for each result, in order, the lines separated by an empty line. The line of the
  \<open>i\<close>-th result (counting from 0) is \<open>[i+1]\<close>, the title, the score printed by
  \<open>toFixed(2)\<close>, a line break, the first 200 characters of the content at most, and
  three dots, which are appended whether or not anything was cut. The score is printed
  as digits, a point and exactly two digits when its magnitude is below \<open>10^21\<close>, and
  as the sign followed by the \<open>Number::toString\<close> of its magnitude from \<open>10^21\<close> on.
\<close>

theorem narrative_line_format:
  assumes "q \<noteq> []"
    and "client (build_search_request q (or_default max_results 5)) = Inr response"
  shows "\<exists>text out lines.
           fst (search_docs nts client now (Some q) max_results sid w) = ToolOk text out
         \<and> results out = map result_of_hit (hits response)
         \<and> text = ''Found '' @ decimal (length (results out)) @ '' relevant documents:'' @ nl @ nl
                    @ (case lines of [] \<Rightarrow> []
                       | l # ls \<Rightarrow> l @ concat (map (\<lambda>y. (nl @ nl) @ y) ls))
         \<and> length lines = length (results out)
         \<and> (\<forall>i < length (results out).
               lines ! i
                 = ''['' @ decimal (i + 1) @ ''] '' @ title (results out ! i) @ '' (score: ''
                     @ toFixed nts (score (results out ! i)) 2 @ '')'' @ nl
                     @ take 200 (content (results out ! i)) @ ''...''
             \<and> length (take 200 (content (results out ! i))) \<le> 200
             \<and> (\<bar>score (results out ! i)\<bar> < 10 ^ 21
                  \<longrightarrow> has_two_decimals (toFixed nts (score (results out ! i)) 2))
             \<and> (10 ^ 21 \<le> \<bar>score (results out ! i)\<bar>
                  \<longrightarrow> toFixed nts (score (results out ! i)) 2
                        = (if score (results out ! i) < 0 then ''-'' else [])
                            @ nts \<bar>score (results out ! i)\<bar>))"
proof -
  let ?rs = "map result_of_hit (hits response)"
  let ?lines = "map_index (result_line nts) ?rs"
  have r: "fst (search_docs nts client now (Some q) max_results sid w)
      = ToolOk (''Found '' @ decimal (length (hits response)) @ '' relevant documents:''
                  @ nl @ nl @ join (nl @ nl) ?lines)
          \<lparr> results = ?rs, total = totalHits response, session_id = contextId sid now \<rparr>"
    using assms by (simp add: search_docs_returns)
  have j: "join (nl @ nl) ?lines
      = (case ?lines of [] \<Rightarrow> [] | l # ls \<Rightarrow> l @ concat (map (\<lambda>y. (nl @ nl) @ y) ls))"
    by (rule join_concat)
  have l: "length ?lines = length ?rs" by (simp add: length_map_index)
  have e: "\<forall>i < length ?rs.
               ?lines ! i
                 = ''['' @ decimal (i + 1) @ ''] '' @ title (?rs ! i) @ '' (score: ''
                     @ toFixed nts (score (?rs ! i)) 2 @ '')'' @ nl
                     @ take 200 (content (?rs ! i)) @ ''...''
             \<and> length (take 200 (content (?rs ! i))) \<le> 200
             \<and> (\<bar>score (?rs ! i)\<bar> < 10 ^ 21
                  \<longrightarrow> has_two_decimals (toFixed nts (score (?rs ! i)) 2))
             \<and> (10 ^ 21 \<le> \<bar>score (?rs ! i)\<bar>
                  \<longrightarrow> toFixed nts (score (?rs ! i)) 2
                        = (if score (?rs ! i) < 0 then ''-'' else []) @ nts \<bar>score (?rs ! i)\<bar>)"
    by (simp add: nth_map_index result_line_def toFixed_two_decimals toFixed_from_10_21
        del: length_map nth_map)
  show ?thesis
    apply (rule exI [of _ "''Found '' @ decimal (length (hits response)) @ '' relevant documents:''
                  @ nl @ nl @ join (nl @ nl) ?lines"])
    apply (rule exI [of _ "\<lparr> results = ?rs, total = totalHits response,
                            session_id = contextId sid now \<rparr>"])
    apply (rule exI [of _ ?lines])
    using r j l e by simp
qed

text \<open>
  An instance of C8: the whole text for two documents, one with a short content and one
  with 250 characters of content.
\<close>

theorem narrative_line_format_witness:
  "\<exists>out.
     fst (search_docs integral_to_string (stub_client [hit_a, hit_b] (TotalNumber 2)) 0
            (Some ''vector databases'') (Some 2) (Some ''s1'') initial_world)
       = ToolOk (''Found 2 relevant documents:'' @ nl @ nl
                   @ ''[1] Vector databases (score: 9.50)'' @ nl @ ''Indexes for embeddings....''
                   @ nl @ nl
                   @ ''[2] Inverted index (score: 4.25)'' @ nl @ replicate 200 (CHR ''x'') @ ''...'')
           out
   \<and> has_two_decimals (toFixed integral_to_string (score (results out ! 0)) 2)"
proof -
  let ?response = "\<lparr> hits = [hit_a, hit_b], hits_total = TotalNumber 2 \<rparr>"
  have q: "''vector databases'' \<noteq> []" by simp
  have r: "stub_client [hit_a, hit_b] (TotalNumber 2)
             (build_search_request ''vector databases'' (or_default (Some 2) 5)) = Inr ?response"
    by (simp add: stub_client_def)
  from narrative_line_format [where q = "''vector databases''" and max_results = "Some 2"
      and client = "stub_client [hit_a, hit_b] (TotalNumber 2)" and response = "?response"
      and nts = integral_to_string and now = 0 and sid = "Some ''s1''" and w = initial_world,
      OF q r]
  obtain narrative out lines where
    ok: "fst (search_docs integral_to_string (stub_client [hit_a, hit_b] (TotalNumber 2)) 0
            (Some ''vector databases'') (Some 2) (Some ''s1'') initial_world) = ToolOk narrative out"
    and res: "results out = map result_of_hit (hits ?response)"
    and narr: "narrative = ''Found '' @ decimal (length (results out)) @ '' relevant documents:''
                 @ nl @ nl
                 @ (case lines of [] \<Rightarrow> [] | l # ls \<Rightarrow> l @ concat (map (\<lambda>y. (nl @ nl) @ y) ls))"
    and len: "length lines = length (results out)"
    and each: "\<forall>i < length (results out).
               lines ! i
                 = ''['' @ decimal (i + 1) @ ''] '' @ title (results out ! i) @ '' (score: ''
                     @ toFixed integral_to_string (score (results out ! i)) 2 @ '')'' @ nl
                     @ take 200 (content (results out ! i)) @ ''...''
             \<and> length (take 200 (content (results out ! i))) \<le> 200
             \<and> (\<bar>score (results out ! i)\<bar> < 10 ^ 21
                  \<longrightarrow> has_two_decimals (toFixed integral_to_string (score (results out ! i)) 2))
             \<and> (10 ^ 21 \<le> \<bar>score (results out ! i)\<bar>
                  \<longrightarrow> toFixed integral_to_string (score (results out ! i)) 2
                        = (if score (results out ! i) < 0 then ''-'' else [])
                            @ integral_to_string \<bar>score (results out ! i)\<bar>)"
    by blast
  have rs: "results out = [result_of_hit hit_a, result_of_hit hit_b]" using res by simp
  have a: "title (result_of_hit hit_a) = ''Vector databases''"
    "content (result_of_hit hit_a) = ''Indexes for embeddings.''"
    "score (result_of_hit hit_a) = 19 / 2"
    and b: "title (result_of_hit hit_b) = ''Inverted index''"
    "content (result_of_hit hit_b) = replicate 250 (CHR ''x'')"
    "score (result_of_hit hit_b) = 17 / 4"
    by (simp_all add: result_of_hit_def hit_a_def hit_b_def doc_a_def doc_b_def or_default_def)
  have fa: "toFixed integral_to_string (19 / 2) 2 = ''9.50''"
    and fb: "toFixed integral_to_string (17 / 4) 2 = ''4.25''"
    by (simp_all add: toFixed_def Let_def floor_rat_numeral decimal_eval)
  have l0: "0 < length (results out)" and l1: "1 < length (results out)" using rs by simp_all
  from each [rule_format, OF l0]
  have line0: "lines ! 0 = ''[1] Vector databases (score: 9.50)'' @ nl @ ''Indexes for embeddings....''"
    and two: "has_two_decimals (toFixed integral_to_string (score (results out ! 0)) 2)"
    by (simp_all add: rs a fa decimal_eval)
  from each [rule_format, OF l1]
  have line1: "lines ! 1 = ''[2] Inverted index (score: 4.25)'' @ nl @ replicate 200 (CHR ''x'') @ ''...''"
    by (simp add: rs b fb decimal_eval)
  have "length lines = 2" using len rs by simp
  then have "lines = [lines ! 0, lines ! 1]" by (rule list_of_two)
  then have ls: "lines = [''[1] Vector databases (score: 9.50)'' @ nl @ ''Indexes for embeddings....'',
                          ''[2] Inverted index (score: 4.25)'' @ nl @ replicate 200 (CHR ''x'') @ ''...'']"
    unfolding line0 line1 .
  have "narrative = ''Found 2 relevant documents:'' @ nl @ nl
                   @ ''[1] Vector databases (score: 9.50)'' @ nl @ ''Indexes for embeddings....''
                   @ nl @ nl
                   @ ''[2] Inverted index (score: 4.25)'' @ nl @ replicate 200 (CHR ''x'') @ ''...''"
    unfolding narr by (subst ls) (simp add: rs decimal_eval)
  with ok two show ?thesis by blast
qed

subsection \<open>C9: the minted session id\<close>

text \<open>
  Claim C9 says that after every search without a session id, citing the minted id
  succeeds. When the search found nothing, the empty list is stored under the minted id
  and \<open>cite_sources\<close> answers with its "no search results" error.
\<close>

theorem cite_minted_after_empty_search_counterexample:
  "fst (search_docs integral_to_string (stub_client [] (TotalNumber 0)) 42
          (Some ''vector databases'') (Some 2) None initial_world)
     = ToolOk (''Found 0 relevant documents:'' @ nl @ nl)
         \<lparr> results = [], total = 0, session_id = ''session_42'' \<rparr>
   \<and> fst (cite_sources integral_to_string (Some ''session_42'')
          (snd (search_docs integral_to_string (stub_client [] (TotalNumber 0)) 42
                  (Some ''vector databases'') (Some 2) None initial_world)))
     = ToolError session_not_found"
  by (simp add: search_docs_returns stub_client_def contextId_minted cite_sources_stored
      totalHits_def map_index_def decimal_eval integer_to_string_def)

text \<open>
  Claim C9, amended: a successful call of \<open>search_docs\<close> without \<open>session_id\<close> returns
  the id \<open>session_\<close> followed by the clock reading; \<open>cite_sources\<close> with that id succeeds
  when the search returned at least one result and returns the "no search results" error
  when it returned none; and \<open>cite_sources\<close> with any other non-empty id that is not in
  the store returns the "no search results" error.
\<close>

theorem minted_id_cites:
  assumes "q \<noteq> []"
    and "client (build_search_request q (or_default max_results 5)) = Inr response"
  shows "\<exists>text out w'.
           search_docs nts client now (Some q) max_results None w = (ToolOk text out, w')
         \<and> session_id out = ''session_'' @ integer_to_string now
         \<and> (hits response \<noteq> [] \<longrightarrow>
               \<not> isError (fst (cite_sources nts (Some (session_id out)) w'))
             \<and> structuredContent (fst (cite_sources nts (Some (session_id out)) w'))
                 = Some \<lparr> citations = map citation_of (results out) \<rparr>)
         \<and> (hits response = [] \<longrightarrow>
               cite_sources nts (Some (session_id out)) w' = (ToolError session_not_found, w'))
         \<and> (\<forall>other. other \<noteq> [] \<and> other \<noteq> session_id out \<and> searchContextStore w other = None
               \<longrightarrow> cite_sources nts (Some other) w' = (ToolError session_not_found, w'))"
  using assms
  by (simp add: search_docs_returns contextId_minted cite_sources_stored cite_sources_absent
      isError_def structuredContent_def)

text \<open>An instance of C9, at the clock reading 42.\<close>

theorem minted_id_cites_witness:
  "\<exists>text out w'.
     search_docs integral_to_string (stub_client [hit_a] (TotalNumber 1)) 42
       (Some ''vector databases'') None None initial_world = (ToolOk text out, w')
   \<and> session_id out = ''session_42''
   \<and> \<not> isError (fst (cite_sources integral_to_string (Some ''session_42'') w'))
   \<and> cite_sources integral_to_string (Some ''session_41'') w' = (ToolError session_not_found, w')"
proof -
  let ?response = "\<lparr> hits = [hit_a], hits_total = TotalNumber 1 \<rparr>"
  have q: "''vector databases'' \<noteq> []" by simp
  have r: "stub_client [hit_a] (TotalNumber 1)
             (build_search_request ''vector databases'' (or_default None 5)) = Inr ?response"
    by (simp add: stub_client_def)
  have t: "''session_'' @ integer_to_string 42 = ''session_42''"
    by (simp add: integer_to_string_def decimal_eval)
  from minted_id_cites [where q = "''vector databases''" and max_results = None
      and client = "stub_client [hit_a] (TotalNumber 1)" and response = "?response"
      and nts = integral_to_string and now = 42 and w = initial_world, OF q r]
  obtain narrative out w' where
    ok: "search_docs integral_to_string (stub_client [hit_a] (TotalNumber 1)) 42
           (Some ''vector databases'') None None initial_world = (ToolOk narrative out, w')"
    and sid: "session_id out = ''session_'' @ integer_to_string 42"
    and cited: "hits ?response \<noteq> [] \<longrightarrow>
               \<not> isError (fst (cite_sources integral_to_string (Some (session_id out)) w'))
             \<and> structuredContent (fst (cite_sources integral_to_string (Some (session_id out)) w'))
                 = Some \<lparr> citations = map citation_of (results out) \<rparr>"
    and others: "\<forall>other. other \<noteq> [] \<and> other \<noteq> session_id out
                   \<and> searchContextStore initial_world other = None
               \<longrightarrow> cite_sources integral_to_string (Some other) w' = (ToolError session_not_found, w')"
    by blast
  from sid have sid': "session_id out = ''session_42''" unfolding t .
  from cited have "\<not> isError (fst (cite_sources integral_to_string (Some ''session_42'') w'))"
    unfolding sid' by simp
  moreover from others have
    "cite_sources integral_to_string (Some ''session_41'') w' = (ToolError session_not_found, w')"
    unfolding sid' by (simp add: initial_world_def)
  ultimately show ?thesis using ok sid' by blast
qed

subsection \<open>C10: an empty session id\<close>

text \<open>
  Claim C10 says that the id minted for an empty session id is fresh. The id is made of
  the clock reading alone: a second such search at the same reading gets the id of the
  first, which is in the store already, and replaces its results.
\<close>

theorem minted_id_in_use_counterexample:
  "searchContextStore minted_world ''session_42'' = Some [result_of_hit hit_a]
   \<and> map_option session_id (structuredContent (fst
         (search_docs integral_to_string (stub_client [hit_b] (TotalNumber 1)) 42
            (Some ''inverted index'') None (Some []) minted_world))) = Some ''session_42''
   \<and> searchContextStore (snd
         (search_docs integral_to_string (stub_client [hit_b] (TotalNumber 1)) 42
            (Some ''inverted index'') None (Some []) minted_world)) ''session_42''
       = Some [result_of_hit hit_b]"
  by (simp add: minted_world_def search_docs_returns stub_client_def contextId_minted
      structuredContent_def integer_to_string_def decimal_eval initial_world_def)

text \<open>
  Claim C10, amended: a successful call of \<open>search_docs\<close> with the empty string as
  \<open>session_id\<close> does not use it: the id is \<open>session_\<close> followed by the clock reading,
  whether or not that id is in the store already, the results are stored under that id,
  and that id is returned. No call of \<open>search_docs\<close> at all writes the store at the
  empty key.
\<close>

theorem empty_session_id_is_minted:
  assumes "q \<noteq> []"
    and "client (build_search_request q (or_default max_results 5)) = Inr response"
  shows "(\<exists>text out w'.
           search_docs nts client now (Some q) max_results (Some []) w = (ToolOk text out, w')
         \<and> session_id out = ''session_'' @ integer_to_string now
         \<and> searchContextStore w'
             = (searchContextStore w)(''session_'' @ integer_to_string now \<mapsto> results out))
       \<and> searchContextStore (snd (search_docs nts client' now' query' max_results' sid' w)) []
           = searchContextStore w []"
proof
  show "\<exists>text out w'.
           search_docs nts client now (Some q) max_results (Some []) w = (ToolOk text out, w')
         \<and> session_id out = ''session_'' @ integer_to_string now
         \<and> searchContextStore w'
             = (searchContextStore w)(''session_'' @ integer_to_string now \<mapsto> results out)"
    using assms by (simp add: search_docs_returns contextId_minted)
  show "searchContextStore (snd (search_docs nts client' now' query' max_results' sid' w)) []
           = searchContextStore w []"
    by (simp add: search_docs_def Let_def contextId_not_empty split: option.splits sum.splits)
qed

text \<open>An instance of C10, at the clock reading 1730000000000.\<close>

theorem empty_session_id_is_minted_witness:
  "(\<exists>text out w'.
      search_docs integral_to_string (stub_client [hit_a] (TotalNumber 1)) 1730000000000
         (Some ''vector databases'') None (Some []) initial_world = (ToolOk text out, w')
    \<and> session_id out = ''session_1730000000000''
    \<and> searchContextStore w' ''session_1730000000000'' = Some (results out)
    \<and> searchContextStore w' [] = None)"
proof -
  let ?response = "\<lparr> hits = [hit_a], hits_total = TotalNumber 1 \<rparr>"
  have q: "''vector databases'' \<noteq> []" by simp
  have r: "stub_client [hit_a] (TotalNumber 1)
             (build_search_request ''vector databases'' (or_default None 5)) = Inr ?response"
    by (simp add: stub_client_def)
  have t: "''session_'' @ integer_to_string 1730000000000 = ''session_1730000000000''"
    by (simp add: integer_to_string_def decimal_eval)
  from empty_session_id_is_minted [where q = "''vector databases''" and max_results = None
      and client = "stub_client [hit_a] (TotalNumber 1)" and response = "?response"
      and nts = integral_to_string and now = 1730000000000 and w = initial_world
      and client' = "stub_client [hit_a] (TotalNumber 1)" and now' = 1730000000000
      and query' = "Some ''vector databases''" and max_results' = None and sid' = "Some []",
      OF q r]
  obtain narrative out w' where
    ok: "search_docs integral_to_string (stub_client [hit_a] (TotalNumber 1)) 1730000000000
           (Some ''vector databases'') None (Some []) initial_world = (ToolOk narrative out, w')"
    and sid: "session_id out = ''session_'' @ integer_to_string 1730000000000"
    and store: "searchContextStore w'
        = (searchContextStore initial_world)(''session_'' @ integer_to_string 1730000000000 \<mapsto> results out)"
    and empty: "searchContextStore (snd (search_docs integral_to_string
           (stub_client [hit_a] (TotalNumber 1)) 1730000000000
           (Some ''vector databases'') None (Some []) initial_world)) []
        = searchContextStore initial_world []"
    by blast
  from empty ok have "searchContextStore w' [] = None" by (simp add: initial_world_def)
  moreover from store have "searchContextStore w' ''session_1730000000000'' = Some (results out)"
    unfolding t by simp
  moreover from sid have "session_id out = ''session_1730000000000''" unfolding t .
  ultimately show ?thesis using ok by blast
qed

end
